theory Spec2Isabelle
  imports Complex_Main
begin

section \<open>Streaming responses: \<open>BaseStream\<close> and \<open>GroqStream\<close>\<close>

text \<open>
  The development embeds \<^verbatim>\<open>mirascope/core/base/stream.py\<close> (the generator
  \<^verbatim>\<open>BaseStream.__iter__\<close>) and \<^verbatim>\<open>mirascope/core/groq/stream.py\<close> (the property
  \<^verbatim>\<open>GroqStream.cost\<close>, \<^verbatim>\<open>GroqStream._construct_message_param\<close> and
  \<^verbatim>\<open>GroqStream.construct_call_response\<close>). The accumulation of tool calls and of
  usage, for which the sources hold no code, follows the spec.
  Python objects become records, attribute assignment becomes record update, a raised
  exception becomes the left summand of a sum, and the generator becomes a function
  of the number of items its consumer pulls.
\<close>

subsection \<open>Values, errors and chunks\<close>

datatype error =
    AttributeError
  | ValueError
  | KeyError
  | ValidationError
  | IndexError
  | StreamRaised string

text \<open>
  An attribute that a class only annotates (\<^verbatim>\<open>message_param: _AssistantMessageParamT\<close>)
  does not exist on the instance until it is assigned; reading it raises
  \<^verbatim>\<open>AttributeError\<close>. An attribute that exists may hold \<^verbatim>\<open>None\<close>, hence three
  cases.
\<close>

datatype 'a attr = Unassigned | IsNone | Assigned 'a

text \<open>One entry of a \<^verbatim>\<open>tool_calls\<close> list: id, function name, function arguments.\<close>

record tool_call =
  tc_id :: string
  tc_name :: string
  tc_arguments :: string

text \<open>The values that occur in the message dictionaries.\<close>

datatype pyval = PyNone | PyStr string | PyToolCalls "tool_call list"

type_synonym pydict = "string \<rightharpoonup> pyval"

text \<open>
  Modelled from the spec: the fragment of a tool call carried by a chunk (section 3,
  \<open>ToolCallDelta\<close>): the slot index, and optional id, name and arguments fragments.
  No class of the sources declares it.
\<close>

record tool_call_delta =
  delta_index :: int
  delta_id :: "string option"
  delta_name :: "string option"
  delta_arguments :: "string option"

text \<open>
  Modelled from the spec: the chunk class \<^verbatim>\<open>BaseCallResponseChunk\<close> is imported from
  \<^verbatim>\<open>.call_response_chunk\<close>, which is not among the sources. The first three fields
  are the attributes \<^verbatim>\<open>__iter__\<close> reads (\<^verbatim>\<open>chunk.user_message_param\<close>,
  \<^verbatim>\<open>chunk.content\<close>, \<^verbatim>\<open>chunk.cost\<close>); the last three are the remaining fields of the
  spec's \<open>Chunk\<close> (tool-call deltas, finish reason, usage as input and output
  tokens). A cost is a float that is only ever copied, never computed with.
\<close>

record 'u chunk =
  chunk_user_message_param :: "'u option"
  chunk_content :: string
  chunk_cost :: "real option"
  chunk_tool_call_deltas :: "tool_call_delta list"
  chunk_finish_reason :: "string option"
  chunk_usage :: "(int \<times> int) option"

text \<open>
  The class \<^verbatim>\<open>BaseTool\<close> is imported from \<^verbatim>\<open>.tool\<close>; \<^verbatim>\<open>__iter__\<close> never builds a value of
  it.
\<close>

typedecl BaseTool

text \<open>
  The underlying generator \<^verbatim>\<open>self.stream\<close>: the items it will still produce. It
  either yields a chunk or raises; exhaustion is the empty list.
\<close>

datatype 'c event = Yield 'c | Raise error

subsection \<open>\<open>BaseStream\<close>\<close>

text \<open>
  The attributes of a \<^verbatim>\<open>BaseStream\<close>. \<open>message_param_type\<close> is represented by the
  keys of its \<^verbatim>\<open>__annotations__\<close>, the only thing \<^verbatim>\<open>__iter__\<close> asks of it; calling
  it on keyword arguments gives the dictionary of those arguments (it is a
  \<^verbatim>\<open>TypedDict\<close>).
\<close>

record ('u, 'o) BaseStream =
  stream :: "'u chunk event list"
  message_param_type :: "string list"
  output_parser :: "('u chunk \<Rightarrow> 'o) option"
  cost :: "real option"
  user_message_param :: "'u option"
  message_param :: "pydict attr"

text \<open>\<^verbatim>\<open>BaseStream.__init__\<close>, with the class-level defaults of \<open>cost\<close> and
  \<open>user_message_param\<close>.\<close>

definition BaseStream_init ::
  "'u chunk event list \<Rightarrow> string list \<Rightarrow> ('u chunk \<Rightarrow> 'o) option \<Rightarrow> ('u, 'o) BaseStream" where
  "BaseStream_init strm mpt parser =
     \<lparr>stream = strm, message_param_type = mpt, output_parser = parser,
      cost = None, user_message_param = None, message_param = Unassigned\<rparr>"

text \<open>
  The body of the \<^verbatim>\<open>for\<close> loop (lines 58 to 64): the new object, the new value of the
  local \<^verbatim>\<open>content\<close>, and the pair that is yielded. The tool of the pair is always
  \<^verbatim>\<open>None\<close>.
\<close>

definition loop_body ::
  "('u, 'o, 'z) BaseStream_scheme \<Rightarrow> string \<Rightarrow> 'u chunk \<Rightarrow>
     ('u, 'o, 'z) BaseStream_scheme \<times> string \<times> (('u chunk + 'o) \<times> BaseTool option)" where
  "loop_body self content c =
     (let self1 = self\<lparr>user_message_param := chunk_user_message_param c\<rparr>;
          content1 = content @ chunk_content c;
          self2 = (case chunk_cost c of None \<Rightarrow> self1 | Some k \<Rightarrow> self1\<lparr>cost := Some k\<rparr>);
          y = (case output_parser self2 of None \<Rightarrow> Inl c | Some p \<Rightarrow> Inr (p c))
      in (self2, content1, (y, None)))"

text \<open>The code after the loop (lines 65 to 70).\<close>

definition after_loop ::
  "('u, 'o, 'z) BaseStream_scheme \<Rightarrow> string \<Rightarrow> ('u, 'o, 'z) BaseStream_scheme" where
  "after_loop self content =
     (let kwargs = [''role'' \<mapsto> PyStr ''assistant''];
          kwargs1 = (if ''message'' \<in> set (message_param_type self)
                     then kwargs(''message'' \<mapsto> PyStr content)
                     else kwargs(''content'' \<mapsto> PyStr content))
      in self\<lparr>message_param := Assigned kwargs1\<rparr>)"

text \<open>
  How the generator stands when its consumer stops pulling: suspended at a
  \<^verbatim>\<open>yield\<close>, returned (\<^verbatim>\<open>StopIteration\<close>), or ended by an exception of the underlying
  stream, which \<^verbatim>\<open>__iter__\<close> does not catch.
\<close>

datatype outcome = Suspended | Returned | Failed error

text \<open>
  \<^verbatim>\<open>BaseStream.__iter__\<close>, driven by a consumer that calls \<^verbatim>\<open>next\<close> \<open>n\<close> times, from
  the frame in which the local \<^verbatim>\<open>content\<close> has the given value. The result is the
  outcome, the object, the local \<^verbatim>\<open>content\<close> and the pairs yielded.
\<close>

fun iter_from ::
  "nat \<Rightarrow> ('u, 'o, 'z) BaseStream_scheme \<Rightarrow> string \<Rightarrow>
     outcome \<times> ('u, 'o, 'z) BaseStream_scheme \<times> string \<times> (('u chunk + 'o) \<times> BaseTool option) list" where
  "iter_from 0 self content = (Suspended, self, content, [])"
| "iter_from (Suc n) self content =
     (case stream self of
        [] \<Rightarrow> (Returned, after_loop self content, content, [])
      | Raise e # rest \<Rightarrow> (Failed e, self\<lparr>stream := []\<rparr>, content, [])
      | Yield c # rest \<Rightarrow>
          (case loop_body (self\<lparr>stream := rest\<rparr>) content c of
             (self1, content1, y) \<Rightarrow>
               (case iter_from n self1 content1 of
                  (out, self2, content2, ys) \<Rightarrow> (out, self2, content2, y # ys))))"

text \<open>Line 56: the generator starts with \<^verbatim>\<open>content = ""\<close>.\<close>

definition BaseStream_iter ::
  "nat \<Rightarrow> ('u, 'o, 'z) BaseStream_scheme \<Rightarrow>
     outcome \<times> ('u, 'o, 'z) BaseStream_scheme \<times> string \<times> (('u chunk + 'o) \<times> BaseTool option) list" where
  "BaseStream_iter n self = iter_from n self ''''"

text \<open>
  A \<^verbatim>\<open>for\<close> loop over the stream object pulls until the generator returns or
  raises: one pull more than the underlying stream has items is enough.
\<close>

definition consume ::
  "('u, 'o, 'z) BaseStream_scheme \<Rightarrow>
     outcome \<times> ('u, 'o, 'z) BaseStream_scheme \<times> string \<times> (('u chunk + 'o) \<times> BaseTool option) list" where
  "consume self = BaseStream_iter (Suc (length (stream self))) self"

text \<open>Reading the parts of a result of the generator.\<close>

definition outcome_of :: "outcome \<times> 's \<times> string \<times> 'y list \<Rightarrow> outcome" where
  "outcome_of r = fst r"

definition object_of :: "outcome \<times> 's \<times> string \<times> 'y list \<Rightarrow> 's" where
  "object_of r = fst (snd r)"

definition local_content_of :: "outcome \<times> 's \<times> string \<times> 'y list \<Rightarrow> string" where
  "local_content_of r = fst (snd (snd r))"

definition yielded_of :: "outcome \<times> 's \<times> string \<times> 'y list \<Rightarrow> 'y list" where
  "yielded_of r = snd (snd (snd r))"

subsection \<open>\<open>GroqStream\<close>\<close>

text \<open>
  \<^verbatim>\<open>groq/stream.py\<close> takes the base class of \<^verbatim>\<open>GroqStream\<close> from \<^verbatim>\<open>..base._stream\<close>,
  a module that is not among the sources (it is not the \<^verbatim>\<open>BaseStream\<close> of
  \<^verbatim>\<open>base/stream.py\<close> above: the class is given nine type arguments, and the hook
  \<^verbatim>\<open>_construct_message_param\<close> is called by no code of the sources). A \<^verbatim>\<open>GroqStream\<close>
  is therefore modelled on its own, as the record of the attributes that the methods
  of \<^verbatim>\<open>groq/stream.py\<close> read: any values of them make an object. How the base
  class fills them while the stream is consumed is not modelled. The attributes that
  \<^verbatim>\<open>construct_call_response\<close> only hands on to the response unchanged (metadata,
  tool types, prompt template, function arguments, dynamic configuration, messages,
  call parameters, start and end time) are left out.
\<close>

record 'u GroqStream =
  groq_message_param :: "pydict option"
  groq_user_message_param :: "'u option"
  stream_id :: "string option"
  model :: string
  finish_reasons :: "string list option"
  input_tokens :: "int option"
  output_tokens :: "int option"



text \<open>\<^verbatim>\<open>GroqStream._construct_message_param\<close> (lines 43 to 54); \<^verbatim>\<open>if tool_calls\<close> holds
  of a list that is there and not empty.\<close>

definition construct_message_param :: "tool_call list option \<Rightarrow> string option \<Rightarrow> pydict" where
  "construct_message_param tool_calls content =
     (let message_param =
            [''role'' \<mapsto> PyStr ''assistant'',
             ''content'' \<mapsto> (case content of None \<Rightarrow> PyNone | Some s \<Rightarrow> PyStr s)]
      in case tool_calls of
           None \<Rightarrow> message_param
         | Some [] \<Rightarrow> message_param
         | Some (t # ts) \<Rightarrow> message_param(''tool_calls'' \<mapsto> PyToolCalls (t # ts)))"

text \<open>The objects of the provider's library that the response is made of.\<close>

record ChatCompletionMessage =
  message_role :: string
  message_content :: "string option"
  message_tool_calls :: "tool_call list option"

record Choice =
  finish_reason :: string
  index :: nat
  message :: ChatCompletionMessage

record ChatCompletion =
  completion_id :: string
  completion_model :: string
  choices :: "Choice list"
  created :: nat
  object :: string

record 'u GroqCallResponse =
  response :: ChatCompletion
  response_user_message_param :: "'u option"

text \<open>\<^verbatim>\<open>d.get(key, default)\<close>.\<close>

definition dict_get :: "pydict \<Rightarrow> string \<Rightarrow> pyval \<Rightarrow> pyval" where
  "dict_get d k dflt = (case d k of None \<Rightarrow> dflt | Some v \<Rightarrow> v)"

text \<open>
  \<^verbatim>\<open>ChatCompletionMessage.model_validate\<close> on a dictionary: the role is the literal
  \<^verbatim>\<open>"assistant"\<close>, the content an optional string, the tool calls an optional list;
  a value of another type is a validation error.
\<close>

definition model_validate :: "pydict \<Rightarrow> error + ChatCompletionMessage" where
  "model_validate d =
     (case d ''role'' of
        Some (PyStr r) \<Rightarrow>
          (if r = ''assistant'' then
             (case dict_get d ''content'' PyNone of
                PyToolCalls _ \<Rightarrow> Inl ValidationError
              | PyNone \<Rightarrow>
                  (case dict_get d ''tool_calls'' PyNone of
                     PyStr _ \<Rightarrow> Inl ValidationError
                   | PyNone \<Rightarrow> Inr \<lparr>message_role = r, message_content = None, message_tool_calls = None\<rparr>
                   | PyToolCalls ts \<Rightarrow> Inr \<lparr>message_role = r, message_content = None, message_tool_calls = Some ts\<rparr>)
              | PyStr s \<Rightarrow>
                  (case dict_get d ''tool_calls'' PyNone of
                     PyStr _ \<Rightarrow> Inl ValidationError
                   | PyNone \<Rightarrow> Inr \<lparr>message_role = r, message_content = Some s, message_tool_calls = None\<rparr>
                   | PyToolCalls ts \<Rightarrow> Inr \<lparr>message_role = r, message_content = Some s, message_tool_calls = Some ts\<rparr>))
           else Inl ValidationError)
      | _ \<Rightarrow> Inl ValidationError)"

text \<open>
  The constructor of the library's \<^verbatim>\<open>Choice\<close> validates its arguments: the finish
  reason has to be one of the literals of the field's type, which are these four. Any
  other string is a validation error (the call in line 74 is marked
  \<^verbatim>\<open>type: ignore\<close>).
\<close>

definition Choice_finish_reason_literals :: "string list" where
  "Choice_finish_reason_literals = [''stop'', ''length'', ''tool_calls'', ''function_call'']"

definition Choice_new :: "string \<Rightarrow> nat \<Rightarrow> ChatCompletionMessage \<Rightarrow> error + Choice" where
  "Choice_new fr i msg =
     (if fr \<in> set Choice_finish_reason_literals
      then Inr \<lparr>finish_reason = fr, index = i, message = msg\<rparr>
      else Inl ValidationError)"

text \<open>
  The finish reason handed to \<^verbatim>\<open>Choice\<close> (lines 72 to 74): the first of
  \<^verbatim>\<open>self.finish_reasons\<close> when the list is there, is not empty and its first element
  is truthy, that is, not the empty string; \<^verbatim>\<open>"stop"\<close> otherwise.
\<close>

definition choice_finish_reason :: "string list option \<Rightarrow> string" where
  "choice_finish_reason frs =
     (case frs of
        None \<Rightarrow> ''stop''
      | Some [] \<Rightarrow> ''stop''
      | Some (r # rs) \<Rightarrow> (if r \<noteq> [] then r else ''stop''))"

text \<open>
  \<^verbatim>\<open>GroqStream.construct_call_response\<close> (lines 56 to 95). The guard raises
  \<^verbatim>\<open>ValueError\<close> when there is no message parameter; \<^verbatim>\<open>self.message_param["role"]\<close>
  raises \<^verbatim>\<open>KeyError\<close> when the key is missing; the message and the choice are
  validated by the library.
\<close>

definition construct_call_response :: "'u GroqStream \<Rightarrow> error + 'u GroqCallResponse" where
  "construct_call_response self =
     (case groq_message_param self of
        None \<Rightarrow> Inl ValueError
      | Some mp \<Rightarrow>
          (case mp ''role'' of
             None \<Rightarrow> Inl KeyError
           | Some role \<Rightarrow>
               (let message = [''role'' \<mapsto> role,
                               ''content'' \<mapsto> dict_get mp ''content'' (PyStr ''''),
                               ''tool_calls'' \<mapsto> dict_get mp ''tool_calls'' (PyToolCalls [])]
                in case model_validate message of
                     Inl e \<Rightarrow> Inl e
                   | Inr msg \<Rightarrow>
                       (case Choice_new (choice_finish_reason (finish_reasons self)) 0 msg of
                          Inl e \<Rightarrow> Inl e
                        | Inr choice \<Rightarrow>
                            Inr \<lparr>response =
                                   \<lparr>completion_id =
                                      (case stream_id self of
                                         None \<Rightarrow> ''''
                                       | Some i \<Rightarrow> (if i \<noteq> [] then i else '''')),
                                    completion_model = model self,
                                    choices = [choice],
                                    created = 0,
                                    object = ''chat.completion''\<rparr>,
                                 response_user_message_param = groq_user_message_param self\<rparr>))))"

subsection \<open>What a caller reads\<close>

text \<open>
  The single choice of the completion of the built response
  (\<^verbatim>\<open>construct_call_response().response.choices[0]\<close>) and its parts.
\<close>

definition built_choice :: "'u GroqStream \<Rightarrow> error + Choice" where
  "built_choice self =
     (case construct_call_response self of
        Inl e \<Rightarrow> Inl e
      | Inr r \<Rightarrow> (case choices (response r) of [] \<Rightarrow> Inl IndexError | c # cs \<Rightarrow> Inr c))"

definition built_content :: "'u GroqStream \<Rightarrow> error + string option" where
  "built_content self = map_sum id (\<lambda>c. message_content (message c)) (built_choice self)"

definition built_tool_calls :: "'u GroqStream \<Rightarrow> error + tool_call list option" where
  "built_tool_calls self = map_sum id (\<lambda>c. message_tool_calls (message c)) (built_choice self)"

definition built_finish_reason :: "'u GroqStream \<Rightarrow> error + string" where
  "built_finish_reason self = map_sum id finish_reason (built_choice self)"

text \<open>
  The text that the stream object holds: the only attribute that ever receives the
  accumulated text is \<^verbatim>\<open>message_param\<close>, under the key \<^verbatim>\<open>content\<close> or \<^verbatim>\<open>message\<close>.
  Inside \<^verbatim>\<open>__iter__\<close> the text is the local variable \<^verbatim>\<open>content\<close>.
\<close>

definition held_content :: "('u, 'o, 'z) BaseStream_scheme \<Rightarrow> string option" where
  "held_content self =
     (case message_param self of
        Assigned mp \<Rightarrow>
          (case mp ''content'' of
             Some (PyStr s) \<Rightarrow> Some s
           | _ \<Rightarrow> (case mp ''message'' of Some (PyStr s) \<Rightarrow> Some s | _ \<Rightarrow> None))
      | _ \<Rightarrow> None)"

subsection \<open>The accumulation of tool calls and usage\<close>

text \<open>
  The sources hold no code that gathers the tool-call fragments or the usage of the
  chunks: \<^verbatim>\<open>BaseStream.__iter__\<close> of \<^verbatim>\<open>base/stream.py\<close> reads neither, and the base class
  of \<^verbatim>\<open>GroqStream\<close> and the stream handler of the provider are not among the sources.
  These parts of the accumulator are taken from the spec.
\<close>

text \<open>
  Modelled from the spec: the slot of one tool call in progress (section 3,
  \<open>ToolCallSlot\<close>): an optional id, and the name and the arguments buffer, both built
  by appending. The class that holds it is missing from the sources.
\<close>

record ToolCallSlot =
  slot_id :: "string option"
  slot_name :: string
  slot_arguments :: string

text \<open>
  Modelled from the spec: a slot as it is created, before any fragment has been
  appended (section 4.2, step 2, the code of which is missing from the sources).
\<close>

definition empty_slot :: ToolCallSlot where
  "empty_slot = \<lparr>slot_id = None, slot_name = [], slot_arguments = []\<rparr>"

text \<open>
  Modelled from the spec: what one delta does to its slot (section 4.2, step 2, the
  code of which is missing from the sources): the name fragment, if present, is
  appended to the name; the arguments fragment, if present, to the arguments buffer;
  the id is recorded the first time one appears, later ids being ignored.
\<close>

definition append_delta :: "ToolCallSlot \<Rightarrow> tool_call_delta \<Rightarrow> ToolCallSlot" where
  "append_delta s d =
     \<lparr>slot_id = (case slot_id s of None \<Rightarrow> delta_id d | Some i \<Rightarrow> Some i),
      slot_name = slot_name s @ (case delta_name d of None \<Rightarrow> [] | Some n \<Rightarrow> n),
      slot_arguments = slot_arguments s @ (case delta_arguments d of None \<Rightarrow> [] | Some a \<Rightarrow> a)\<rparr>"

text \<open>
  Modelled from the spec: the slots are an ordered mapping from index to slot
  (section 3, \<open>AccumulatedState\<close>), here a list of pairs in insertion order. A delta
  looks up the slot at its index or creates it, a new slot coming last (section 4.2,
  step 2, the code of which is missing from the sources).
\<close>

fun apply_delta :: "(int \<times> ToolCallSlot) list \<Rightarrow> tool_call_delta \<Rightarrow> (int \<times> ToolCallSlot) list" where
  "apply_delta [] d = [(delta_index d, append_delta empty_slot d)]"
| "apply_delta ((i, s) # slots) d =
     (if i = delta_index d then (i, append_delta s d) # slots
      else (i, s) # apply_delta slots d)"

text \<open>
  Modelled from the spec: the part of \<open>consume\<close> that concerns tool calls (section
  4.2, step 2: for each delta of the chunk, in order). The code is missing from the
  sources.
\<close>

definition consume_tool_calls :: "(int \<times> ToolCallSlot) list \<Rightarrow> 'u chunk \<Rightarrow> (int \<times> ToolCallSlot) list" where
  "consume_tool_calls slots c = foldl apply_delta slots (chunk_tool_call_deltas c)"

text \<open>
  Modelled from the spec: the slots after a sequence of chunks has been consumed in
  order, the state being created empty (section 3, lifecycle). The code is missing
  from the sources.
\<close>

definition accumulate_tool_calls :: "'u chunk list \<Rightarrow> (int \<times> ToolCallSlot) list" where
  "accumulate_tool_calls cs = foldl consume_tool_calls [] cs"

text \<open>
  Modelled from the spec: the error of the builder for a slot whose arguments buffer
  is not valid JSON (section 7). No class of the sources declares it.
\<close>

datatype build_error = ToolCallArgumentsParseError

text \<open>
  Modelled from the spec: an entry of the finished tool-call list (section 4.3), with
  the id, the name and the arguments of its slot. No class of the sources declares it.
\<close>

record finished_tool_call =
  finished_id :: "string option"
  finished_name :: string
  finished_arguments :: string

text \<open>
  Modelled from the spec: the builder makes a finished tool call of a slot; a slot
  whose arguments buffer is not valid JSON is reported for that slot as a
  \<open>ToolCallArgumentsParseError\<close> (section 4.3). The builder for slots is missing from
  the sources; the JSON parser is a parameter.
\<close>

definition materialize :: "(string \<Rightarrow> bool) \<Rightarrow> ToolCallSlot \<Rightarrow> build_error + finished_tool_call" where
  "materialize valid_json s =
     (if valid_json (slot_arguments s)
      then Inr \<lparr>finished_id = slot_id s, finished_name = slot_name s,
                finished_arguments = slot_arguments s\<rparr>
      else Inl ToolCallArgumentsParseError)"

text \<open>
  Modelled from the spec: the builder turns the slots, in their first-seen order,
  into the list of finished tool calls, each slot reported on its own (section 4.3).
  The builder for slots is missing from the sources.
\<close>

definition build_tool_calls ::
  "(string \<Rightarrow> bool) \<Rightarrow> (int \<times> ToolCallSlot) list \<Rightarrow> (build_error + finished_tool_call) list" where
  "build_tool_calls valid_json slots = map (\<lambda>(i, s). materialize valid_json s) slots"

text \<open>
  Modelled from the spec: the part of \<open>consume\<close> that concerns usage (section 4.2,
  step 4): a chunk that carries usage overwrites the input and output tokens, a
  chunk that carries none leaves them. The code is missing from the sources.
\<close>

definition consume_usage :: "int option \<times> int option \<Rightarrow> 'u chunk \<Rightarrow> int option \<times> int option" where
  "consume_usage tokens c =
     (case chunk_usage c of None \<Rightarrow> tokens | Some (tin, tout) \<Rightarrow> (Some tin, Some tout))"

text \<open>
  Modelled from the spec: the input and output tokens after a sequence of chunks has
  been consumed in order, both absent in the state as it is created (section 3). The
  code is missing from the sources.
\<close>

definition accumulate_usage :: "'u chunk list \<Rightarrow> int option \<times> int option" where
  "accumulate_usage cs = foldl consume_usage (None, None) cs"

subsection \<open>Specification functions\<close>

text \<open>
  Last write wins: the stored value after a sequence of optional writes, an absent
  value leaving the stored one as it is.
\<close>

fun last_write_wins :: "'a option \<Rightarrow> 'a option list \<Rightarrow> 'a option" where
  "last_write_wins acc [] = acc"
| "last_write_wins acc (None # xs) = last_write_wins acc xs"
| "last_write_wins acc (Some v # xs) = last_write_wins (Some v) xs"

text \<open>The indices of a sequence in the order in which each is first seen.\<close>

definition first_seen :: "int list \<Rightarrow> int list" where
  "first_seen xs = foldl (\<lambda>seen x. if x \<in> set seen then seen else seen @ [x]) [] xs"

text \<open>
  The fragments that a sequence of deltas carries for one index, concatenated in
  order, and the first id it carries for that index.
\<close>

definition name_fragments :: "int \<Rightarrow> tool_call_delta list \<Rightarrow> string" where
  "name_fragments i ds =
     concat (map (\<lambda>d. case delta_name d of None \<Rightarrow> [] | Some n \<Rightarrow> n)
               (filter (\<lambda>d. delta_index d = i) ds))"

definition argument_fragments :: "int \<Rightarrow> tool_call_delta list \<Rightarrow> string" where
  "argument_fragments i ds =
     concat (map (\<lambda>d. case delta_arguments d of None \<Rightarrow> [] | Some a \<Rightarrow> a)
               (filter (\<lambda>d. delta_index d = i) ds))"

definition first_id :: "int \<Rightarrow> tool_call_delta list \<Rightarrow> string option" where
  "first_id i ds =
     (case filter (\<lambda>d. delta_index d = i \<and> delta_id d \<noteq> None) ds of
        [] \<Rightarrow> None
      | d # _ \<Rightarrow> delta_id d)"

text \<open>The slot at an index, the empty slot where there is none.\<close>

definition slot_at :: "(int \<times> ToolCallSlot) list \<Rightarrow> int \<Rightarrow> ToolCallSlot" where
  "slot_at slots i = (case map_of slots i of None \<Rightarrow> empty_slot | Some s \<Rightarrow> s)"

subsection \<open>The loop body, taken apart\<close>

text \<open>The object after one pass through the loop body, and the pair that pass yields.\<close>

definition absorb :: "('u, 'o, 'z) BaseStream_scheme \<Rightarrow> 'u chunk \<Rightarrow> ('u, 'o, 'z) BaseStream_scheme" where
  "absorb self c = fst (loop_body self [] c)"

definition yielded_pair :: "('u chunk \<Rightarrow> 'o) option \<Rightarrow> 'u chunk \<Rightarrow> ('u chunk + 'o) \<times> BaseTool option" where
  "yielded_pair parser c = (case parser of None \<Rightarrow> Inl c | Some p \<Rightarrow> Inr (p c), None)"

subsection \<open>Chunks of the scenarios\<close>

text \<open>A chunk of text, a chunk with one tool-call fragment, a chunk with usage.\<close>

definition text_chunk :: "'u option \<Rightarrow> string \<Rightarrow> real option \<Rightarrow> 'u chunk" where
  "text_chunk u s k =
     \<lparr>chunk_user_message_param = u, chunk_content = s, chunk_cost = k,
      chunk_tool_call_deltas = [], chunk_finish_reason = None, chunk_usage = None\<rparr>"

definition tool_chunk :: "int \<Rightarrow> string option \<Rightarrow> string option \<Rightarrow> 'u chunk" where
  "tool_chunk i n a =
     \<lparr>chunk_user_message_param = None, chunk_content = [], chunk_cost = None,
      chunk_tool_call_deltas =
        [\<lparr>delta_index = i, delta_id = None, delta_name = n, delta_arguments = a\<rparr>],
      chunk_finish_reason = None, chunk_usage = None\<rparr>"

definition usage_chunk :: "int \<Rightarrow> int \<Rightarrow> 'u chunk" where
  "usage_chunk a b =
     \<lparr>chunk_user_message_param = None, chunk_content = [], chunk_cost = None,
      chunk_tool_call_deltas = [], chunk_finish_reason = None, chunk_usage = Some (a, b)\<rparr>"

subsection \<open>Deltas and slots, for the proofs\<close>

text \<open>The deltas of a sequence of chunks, in order.\<close>

definition all_deltas :: "'u chunk list \<Rightarrow> tool_call_delta list" where
  "all_deltas cs = concat (map chunk_tool_call_deltas cs)"

text \<open>A slot after the deltas of a sequence that name its index.\<close>

definition fill_slot :: "int \<Rightarrow> ToolCallSlot \<Rightarrow> tool_call_delta list \<Rightarrow> ToolCallSlot" where
  "fill_slot i s ds = foldl (\<lambda>s d. if delta_index d = i then append_delta s d else s) s ds"

text \<open>One step of \<open>first_seen\<close>.\<close>

definition see :: "int list \<Rightarrow> int \<Rightarrow> int list" where
  "see seen x = (if x \<in> set seen then seen else seen @ [x])"

section \<open>Lemmas\<close>

lemma loop_body_eq:
  "loop_body self ct c = (absorb self c, ct @ chunk_content c, yielded_pair (output_parser self) c)"
  by (simp add: loop_body_def absorb_def yielded_pair_def Let_def split: option.splits)

lemma absorb_stream_update: "absorb (self\<lparr>stream := r\<rparr>) c = (absorb self c)\<lparr>stream := r\<rparr>"
  by (simp add: loop_body_def absorb_def Let_def split: option.splits)

lemma absorb_fields:
  "stream (absorb self c) = stream self"
  "message_param_type (absorb self c) = message_param_type self"
  "output_parser (absorb self c) = output_parser self"
  "message_param (absorb self c) = message_param self"
  "BaseStream.more (absorb self c) = BaseStream.more self"
  "user_message_param (absorb self c) = chunk_user_message_param c"
  "cost (absorb self c) = (case chunk_cost c of None \<Rightarrow> cost self | Some k \<Rightarrow> Some k)"
  by (simp_all add: loop_body_def absorb_def Let_def split: option.splits)

lemma foldl_absorb_stream_update:
  "foldl absorb (self\<lparr>stream := r\<rparr>) cs = (foldl absorb self cs)\<lparr>stream := r\<rparr>"
  by (induction cs arbitrary: self) (simp_all add: absorb_stream_update)

lemma foldl_absorb_fields:
  "stream (foldl absorb self cs) = stream self"
  "message_param_type (foldl absorb self cs) = message_param_type self"
  "output_parser (foldl absorb self cs) = output_parser self"
  "message_param (foldl absorb self cs) = message_param self"
  "BaseStream.more (foldl absorb self cs) = BaseStream.more self"
  by (induction cs arbitrary: self) (simp_all add: absorb_fields)

lemma foldl_absorb_cost:
  "cost (foldl absorb self cs) = last_write_wins (cost self) (map chunk_cost cs)"
proof (induction cs arbitrary: self)
  case Nil
  then show ?case by simp
next
  case (Cons c cs)
  then show ?case by (cases "chunk_cost c") (simp_all add: absorb_fields)
qed

lemma foldl_absorb_user_message_param:
  "user_message_param (foldl absorb self cs) =
     (if cs = [] then user_message_param self else chunk_user_message_param (last cs))"
  by (induction cs arbitrary: self) (simp_all add: absorb_fields)

lemma iter_from_yields:
  "stream self = map Yield cs @ rest \<Longrightarrow>
   iter_from (length cs + m) self ct =
     (case iter_from m ((foldl absorb self cs)\<lparr>stream := rest\<rparr>) (ct @ concat (map chunk_content cs)) of
        (out, s, ct1, ys) \<Rightarrow> (out, s, ct1, map (yielded_pair (output_parser self)) cs @ ys))"
proof (induction cs arbitrary: self ct)
  case Nil
  then have "self\<lparr>stream := rest\<rparr> = self" by simp
  then show ?case by (simp split: prod.splits)
next
  case (Cons c cs)
  let ?s = "absorb (self\<lparr>stream := map Yield cs @ rest\<rparr>) c"
  have st: "stream ?s = map Yield cs @ rest" by (simp add: absorb_fields)
  have eq: "(foldl absorb ?s cs)\<lparr>stream := rest\<rparr> = (foldl absorb (absorb self c) cs)\<lparr>stream := rest\<rparr>"
    by (simp add: absorb_stream_update foldl_absorb_stream_update)
  have op: "output_parser ?s = output_parser self" by (simp add: absorb_fields)
  show ?case
    using Cons.prems Cons.IH [OF st, of "ct @ chunk_content c"]
    by (simp add: loop_body_eq eq op split: prod.splits)
qed

text \<open>n pulls on a stream that starts with n chunks: suspended.\<close>

lemma iter_suspended:
  "BaseStream_iter (length cs) (self\<lparr>stream := map Yield cs @ rest\<rparr>) =
     (Suspended, (foldl absorb self cs)\<lparr>stream := rest\<rparr>, concat (map chunk_content cs),
      map (yielded_pair (output_parser self)) cs)"
  using iter_from_yields [of "self\<lparr>stream := map Yield cs @ rest\<rparr>" cs rest 0 "[]"]
  by (simp add: BaseStream_iter_def foldl_absorb_stream_update)

lemma iter_returned:
  "BaseStream_iter (length cs + Suc m) (self\<lparr>stream := map Yield cs\<rparr>) =
     (Returned, after_loop ((foldl absorb self cs)\<lparr>stream := []\<rparr>) (concat (map chunk_content cs)),
      concat (map chunk_content cs), map (yielded_pair (output_parser self)) cs)"
  using iter_from_yields [of "self\<lparr>stream := map Yield cs\<rparr>" cs "[]" "Suc m" "[]"]
  by (simp add: BaseStream_iter_def foldl_absorb_stream_update)

lemma iter_failed:
  "BaseStream_iter (length cs + Suc m) (self\<lparr>stream := map Yield cs @ Raise e # rest\<rparr>) =
     (Failed e, (foldl absorb self cs)\<lparr>stream := []\<rparr>,
      concat (map chunk_content cs), map (yielded_pair (output_parser self)) cs)"
  using iter_from_yields [of "self\<lparr>stream := map Yield cs @ Raise e # rest\<rparr>" cs "Raise e # rest" "Suc m" "[]"]
  by (simp add: BaseStream_iter_def foldl_absorb_stream_update)

lemma consume_returned:
  "consume (self\<lparr>stream := map Yield cs\<rparr>) =
     (Returned, after_loop ((foldl absorb self cs)\<lparr>stream := []\<rparr>) (concat (map chunk_content cs)),
      concat (map chunk_content cs), map (yielded_pair (output_parser self)) cs)"
  using iter_returned [of cs 0 self] by (simp add: consume_def)

lemma built_choice_constructed:
  "built_choice (self\<lparr>groq_message_param := Some (construct_message_param tcs ct)\<rparr>) =
     (if choice_finish_reason (finish_reasons self) \<in> set Choice_finish_reason_literals
      then Inr \<lparr>finish_reason = choice_finish_reason (finish_reasons self), index = 0,
                message = \<lparr>message_role = ''assistant'', message_content = ct,
                           message_tool_calls = Some (case tcs of None \<Rightarrow> [] | Some ts \<Rightarrow> ts)\<rparr>\<rparr>
      else Inl ValidationError)"
  by (simp add: built_choice_def construct_call_response_def construct_message_param_def
      model_validate_def dict_get_def Choice_new_def Let_def
      split: option.splits list.splits)

lemma built_choice_no_content_key:
  "built_choice (self\<lparr>groq_message_param := Some [''role'' \<mapsto> PyStr ''assistant'']\<rparr>) =
     (if choice_finish_reason (finish_reasons self) \<in> set Choice_finish_reason_literals
      then Inr \<lparr>finish_reason = choice_finish_reason (finish_reasons self), index = 0,
                message = \<lparr>message_role = ''assistant'', message_content = Some '''',
                           message_tool_calls = Some []\<rparr>\<rparr>
      else Inl ValidationError)"
  by (simp add: built_choice_def construct_call_response_def
      model_validate_def dict_get_def Choice_new_def Let_def)

lemma keys_apply_delta:
  "map fst (apply_delta slots d) = see (map fst slots) (delta_index d)"
  by (induction slots) (force simp add: see_def)+

lemma map_of_apply_delta:
  "map_of (apply_delta slots d) i =
     (if i = delta_index d then Some (append_delta (slot_at slots i) d) else map_of slots i)"
  by (induction slots) (auto simp add: slot_at_def)

lemma slot_at_apply_delta:
  "slot_at (apply_delta slots d) i =
     (if i = delta_index d then append_delta (slot_at slots i) d else slot_at slots i)"
  by (simp add: slot_at_def map_of_apply_delta)

lemma keys_foldl_apply_delta:
  "map fst (foldl apply_delta slots ds) = foldl see (map fst slots) (map delta_index ds)"
  by (induction ds arbitrary: slots) (simp_all add: keys_apply_delta)

lemma distinct_see: "distinct seen \<Longrightarrow> distinct (see seen x)"
  by (simp add: see_def)

lemma distinct_foldl_see: "distinct seen \<Longrightarrow> distinct (foldl see seen xs)"
  by (induction xs arbitrary: seen) (simp_all add: distinct_see)

lemma first_seen_foldl: "first_seen xs = foldl see [] xs"
proof -
  have "(\<lambda>seen x. if x \<in> set seen then seen else seen @ [x]) = see"
    by (rule ext)+ (simp add: see_def)
  then show ?thesis by (simp add: first_seen_def)
qed

lemma fill_slot_Cons:
  "fill_slot i s (d # ds) = fill_slot i (if delta_index d = i then append_delta s d else s) ds"
  by (simp add: fill_slot_def)

lemma map_of_foldl_apply_delta:
  "map_of (foldl apply_delta slots ds) i =
     (if i \<in> set (map fst slots) \<or> i \<in> set (map delta_index ds)
      then Some (fill_slot i (slot_at slots i) ds) else None)"
proof (induction ds arbitrary: slots)
  case Nil
  show ?case
  proof (cases "map_of slots i")
    case None
    then show ?thesis by (simp add: map_of_eq_None_iff)
  next
    case (Some a)
    then have "i \<in> fst ` set slots"
      by (metis map_of_eq_None_iff option.distinct(1))
    with Some show ?thesis by (simp add: fill_slot_def slot_at_def)
  qed
next
  case (Cons d ds)
  have keys: "set (map fst (apply_delta slots d)) = insert (delta_index d) (set (map fst slots))"
    by (auto simp add: keys_apply_delta see_def)
  show ?case
    using Cons [of "apply_delta slots d"]
    by (simp only: foldl_Cons keys fill_slot_Cons slot_at_apply_delta) auto
qed

lemma fill_slot_fragments:
  "fill_slot i s ds =
     \<lparr>slot_id = (case slot_id s of None \<Rightarrow> first_id i ds | Some x \<Rightarrow> Some x),
      slot_name = slot_name s @ name_fragments i ds,
      slot_arguments = slot_arguments s @ argument_fragments i ds\<rparr>"
proof (induction ds arbitrary: s)
  case Nil
  show ?case
    by (simp add: fill_slot_def first_id_def name_fragments_def argument_fragments_def
        split: option.splits)
next
  case (Cons d ds)
  show ?case
    unfolding fill_slot_Cons Cons
    by (simp add: append_delta_def first_id_def name_fragments_def argument_fragments_def
        split: option.splits)
qed

lemma accumulate_all_deltas:
  "foldl consume_tool_calls slots cs = foldl apply_delta slots (all_deltas cs)"
  by (induction cs arbitrary: slots) (simp_all add: consume_tool_calls_def all_deltas_def)

lemma slots_in_key_order:
  "distinct (map fst slots) \<Longrightarrow> map (slot_at slots) (map fst slots) = map snd slots"
proof (induction slots)
  case Nil
  then show ?case by simp
next
  case (Cons p slots)
  obtain i s where p: "p = (i, s)" by (cases p)
  from Cons.prems p have notin: "i \<notin> fst ` set slots" and d: "distinct (map fst slots)"
    by auto
  have "map (slot_at ((i, s) # slots)) (map fst slots) = map (slot_at slots) (map fst slots)"
    using notin by (auto simp add: slot_at_def)
  with Cons.IH [OF d] p show ?case by (simp add: slot_at_def)
qed

lemma accumulate_usage_from:
  "foldl consume_usage (tin, tout) cs =
     (last_write_wins tin (map (\<lambda>c. map_option fst (chunk_usage c)) cs),
      last_write_wins tout (map (\<lambda>c. map_option snd (chunk_usage c)) cs))"
proof (induction cs arbitrary: tin tout)
  case Nil
  show ?case by simp
next
  case (Cons c cs)
  show ?case
  proof (cases "chunk_usage c")
    case None
    then have "consume_usage (tin, tout) c = (tin, tout)"
      by (simp add: consume_usage_def)
    with None show ?thesis by (simp only: foldl_Cons Cons) simp
  next
    case (Some u)
    obtain a b where u: "u = (a, b)" by (cases u)
    with Some have "consume_usage (tin, tout) c = (Some a, Some b)"
      by (simp add: consume_usage_def)
    with Some u show ?thesis by (simp only: foldl_Cons Cons) simp
  qed
qed

lemma last_write_wins_snoc:
  "last_write_wins acc (xs @ [x]) = (case x of None \<Rightarrow> last_write_wins acc xs | Some v \<Rightarrow> Some v)"
  by (induction acc xs rule: last_write_wins.induct) (simp_all split: option.splits)

section \<open>The claims\<close>

subsection \<open>C1: the text of the message\<close>

text \<open>
  Claim C1. For every sequence of chunks, once the stream has been consumed to its
  end the generator has returned and the assistant message it assembled holds, under
  the key \<^verbatim>\<open>content\<close> (or \<^verbatim>\<open>message\<close>, for a message type that has that key), the
  concatenation in order of the texts of all chunks; empty texts add nothing, and for
  no chunks at all the text is the empty string.
\<close>

theorem content_is_concatenation:
  "outcome_of (consume (self\<lparr>stream := map Yield cs\<rparr>)) = Returned \<and>
   message_param (object_of (consume (self\<lparr>stream := map Yield cs\<rparr>))) =
     Assigned [''role'' \<mapsto> PyStr ''assistant'',
               (if ''message'' \<in> set (message_param_type self) then ''message'' else ''content'')
                 \<mapsto> PyStr (concat (map chunk_content cs))] \<and>
   held_content (object_of (consume (self\<lparr>stream := map Yield cs\<rparr>))) =
     Some (concat (map chunk_content cs))"
  by (simp add: consume_returned outcome_of_def object_of_def after_loop_def held_content_def
      foldl_absorb_fields Let_def)

subsection \<open>C2: fragments of a tool call\<close>

text \<open>
  Claim C2. For every sequence of chunks and every slot index, after the chunks have
  been consumed the slot at that index exists exactly when some delta of the chunks
  names the index, and then its name is the concatenation, in order, of all name
  fragments that the deltas carry for the index, and its arguments buffer that of all
  argument fragments. The slots depend only on the sequence of all deltas, not on how
  the deltas are spread over chunks. For the three chunks that carry \<open>get_\<close>, then
  \<open>weather\<close> with the first half of the arguments, then the second half, all for
  slot 0, there is one slot, and one finished tool call \<open>get_weather\<close> with the whole
  arguments.
\<close>

theorem slot_is_concatenation_of_fragments:
  \<open>map_of (accumulate_tool_calls cs) i =
     (if i \<in> set (map delta_index (all_deltas cs))
      then Some \<lparr>slot_id = first_id i (all_deltas cs),
                 slot_name = name_fragments i (all_deltas cs),
                 slot_arguments = argument_fragments i (all_deltas cs)\<rparr>
      else None) \<and>
   accumulate_tool_calls cs = foldl apply_delta [] (all_deltas cs) \<and>
   accumulate_tool_calls
     [tool_chunk 0 (Some ''get_'') None,
      tool_chunk 0 (Some ''weather'') (Some ''{"city":''),
      tool_chunk 0 None (Some ''"NYC"}'')] =
     [(0, \<lparr>slot_id = None, slot_name = ''get_weather'', slot_arguments = ''{"city":"NYC"}''\<rparr>)] \<and>
   build_tool_calls valid_json
     (accumulate_tool_calls
        [tool_chunk 0 (Some ''get_'') None,
         tool_chunk 0 (Some ''weather'') (Some ''{"city":''),
         tool_chunk 0 None (Some ''"NYC"}'')]) =
     [if valid_json ''{"city":"NYC"}''
      then Inr \<lparr>finished_id = None, finished_name = ''get_weather'',
                finished_arguments = ''{"city":"NYC"}''\<rparr>
      else Inl ToolCallArgumentsParseError]\<close>
proof -
  have all: "accumulate_tool_calls cs = foldl apply_delta [] (all_deltas cs)"
    by (simp add: accumulate_tool_calls_def accumulate_all_deltas)
  have slot: "map_of (accumulate_tool_calls cs) i =
     (if i \<in> set (map delta_index (all_deltas cs))
      then Some \<lparr>slot_id = first_id i (all_deltas cs),
                 slot_name = name_fragments i (all_deltas cs),
                 slot_arguments = argument_fragments i (all_deltas cs)\<rparr>
      else None)"
    unfolding all map_of_foldl_apply_delta fill_slot_fragments
    by (simp add: slot_at_def empty_slot_def)
  have scenario: \<open>accumulate_tool_calls
     [tool_chunk 0 (Some ''get_'') None,
      tool_chunk 0 (Some ''weather'') (Some ''{"city":''),
      tool_chunk 0 None (Some ''"NYC"}'')] =
     [(0, \<lparr>slot_id = None, slot_name = ''get_weather'', slot_arguments = ''{"city":"NYC"}''\<rparr>)]\<close>
    by (simp add: accumulate_tool_calls_def consume_tool_calls_def tool_chunk_def
        append_delta_def empty_slot_def)
  have built: \<open>build_tool_calls valid_json
     [(0, \<lparr>slot_id = None, slot_name = ''get_weather'', slot_arguments = ''{"city":"NYC"}''\<rparr>)] =
     [if valid_json ''{"city":"NYC"}''
      then Inr \<lparr>finished_id = None, finished_name = ''get_weather'',
                finished_arguments = ''{"city":"NYC"}''\<rparr>
      else Inl ToolCallArgumentsParseError]\<close>
    by (simp add: build_tool_calls_def materialize_def)
  show ?thesis
    unfolding scenario built using slot all by simp
qed

subsection \<open>C3: building before the stream is consumed\<close>


subsection \<open>C4: the user message\<close>

text \<open>
  The claim C4 as stated fails. Of two chunks that carry the user messages 1 and 2,
  the second overwrites what the first recorded.
\<close>

theorem user_message_counterexample:
  "user_message_param
     (object_of (consume (BaseStream_init
        [Yield (text_chunk (Some 1) ''a'' None), Yield (text_chunk (Some 2) ''b'' None)]
        [''role'', ''content''] None :: (nat, nat) BaseStream)))
   \<noteq> Some 1"
  by (simp add: consume_def BaseStream_iter_def BaseStream_init_def object_of_def
      loop_body_def text_chunk_def after_loop_def Let_def)

text \<open>
  Claim C4, amended. Every pass through the loop assigns the chunk's user message to
  the stream object, so after any number of chunks the recorded user message is that
  of the chunk consumed last (none, when that chunk carries none), and it is the
  initial one only as long as no chunk has been consumed.
\<close>

theorem user_message_last_write:
  "user_message_param (object_of (BaseStream_iter (length cs) (self\<lparr>stream := map Yield cs @ rest\<rparr>))) =
     (if cs = [] then user_message_param self else chunk_user_message_param (last cs)) \<and>
   user_message_param (object_of (consume (self\<lparr>stream := map Yield cs\<rparr>))) =
     (if cs = [] then user_message_param self else chunk_user_message_param (last cs))"
  by (simp add: iter_suspended consume_returned object_of_def after_loop_def Let_def
      foldl_absorb_user_message_param)

subsection \<open>C5: the state between chunks\<close>

text \<open>
  The claim C5 as stated fails. After two chunks with the texts \<open>Hel\<close> and \<open>lo\<close>,
  whether the consumer stops there or pulls again and the stream raises, the stream
  object does not hold the text \<open>Hello\<close>: it holds no text at all.
\<close>

theorem partial_content_counterexample:
  "held_content
     (object_of (BaseStream_iter 2 (BaseStream_init
        [Yield (text_chunk None ''Hel'' None), Yield (text_chunk None ''lo'' None),
         Raise (StreamRaised ''TransportError'')]
        [''role'', ''content''] None :: (nat, nat) BaseStream)))
   \<noteq> Some ''Hello'' \<and>
   held_content
     (object_of (consume (BaseStream_init
        [Yield (text_chunk None ''Hel'' None), Yield (text_chunk None ''lo'' None),
         Raise (StreamRaised ''TransportError'')]
        [''role'', ''content''] None :: (nat, nat) BaseStream)))
   \<noteq> Some ''Hello''"
  by (simp add: consume_def BaseStream_iter_def BaseStream_init_def object_of_def
      loop_body_def text_chunk_def held_content_def Let_def numeral_2_eq_2)

text \<open>
  Claim C5, amended. After the first k chunks of a stream have been consumed the
  generator is suspended and the concatenation of their k texts is the value of its
  local variable \<^verbatim>\<open>content\<close>; the stream object exposes the cost and the user
  message recorded so far, while its \<^verbatim>\<open>message_param\<close> is as it was before the
  iteration began. When the underlying stream raises after k chunks the error reaches
  the consumer, the local text is the concatenation of the k texts, and
  \<^verbatim>\<open>message_param\<close> is still as it was: nothing is built.
\<close>

theorem partial_state:
  "outcome_of (BaseStream_iter (length cs) (self\<lparr>stream := map Yield cs @ rest\<rparr>)) = Suspended \<and>
   local_content_of (BaseStream_iter (length cs) (self\<lparr>stream := map Yield cs @ rest\<rparr>)) =
     concat (map chunk_content cs) \<and>
   message_param (object_of (BaseStream_iter (length cs) (self\<lparr>stream := map Yield cs @ rest\<rparr>))) =
     message_param self \<and>
   cost (object_of (BaseStream_iter (length cs) (self\<lparr>stream := map Yield cs @ rest\<rparr>))) =
     last_write_wins (cost self) (map chunk_cost cs) \<and>
   user_message_param (object_of (BaseStream_iter (length cs) (self\<lparr>stream := map Yield cs @ rest\<rparr>))) =
     (if cs = [] then user_message_param self else chunk_user_message_param (last cs)) \<and>
   outcome_of (consume (self\<lparr>stream := map Yield cs @ Raise e # rest\<rparr>)) = Failed e \<and>
   local_content_of (consume (self\<lparr>stream := map Yield cs @ Raise e # rest\<rparr>)) =
     concat (map chunk_content cs) \<and>
   message_param (object_of (consume (self\<lparr>stream := map Yield cs @ Raise e # rest\<rparr>))) =
     message_param self"
proof -
  have "consume (self\<lparr>stream := map Yield cs @ Raise e # rest\<rparr>) =
      BaseStream_iter (length cs + Suc (Suc (length rest))) (self\<lparr>stream := map Yield cs @ Raise e # rest\<rparr>)"
    by (simp add: consume_def)
  then have f: "consume (self\<lparr>stream := map Yield cs @ Raise e # rest\<rparr>) =
     (Failed e, (foldl absorb self cs)\<lparr>stream := []\<rparr>,
      concat (map chunk_content cs), map (yielded_pair (output_parser self)) cs)"
    by (simp only: iter_failed)
  show ?thesis
    by (simp add: f iter_suspended outcome_of_def local_content_of_def object_of_def
        foldl_absorb_fields foldl_absorb_cost foldl_absorb_user_message_param)
qed

subsection \<open>C6: empty text\<close>

text \<open>
  The claim C6 as stated fails. A stream whose message parameter was made by
  \<^verbatim>\<open>_construct_message_param\<close> from the empty text and no tool calls, with the finish
  reasons \<open>stop\<close>, builds a message whose content is not absent.
\<close>

theorem empty_content_counterexample:
  "built_content
     \<lparr>groq_message_param = Some (construct_message_param None (Some '''')),
      groq_user_message_param = (None :: nat option), stream_id = None, model = ''llama'',
      finish_reasons = Some [''stop''], input_tokens = None, output_tokens = None\<rparr>
   \<noteq> Inr None"
  by (simp add: built_content_def built_choice_def construct_call_response_def
      construct_message_param_def model_validate_def dict_get_def Choice_new_def
      Choice_finish_reason_literals_def choice_finish_reason_def Let_def)

text \<open>
  Claim C6, amended. If the accumulated text is the empty string, the assistant
  message that \<^verbatim>\<open>BaseStream.__iter__\<close> assembles holds the empty string as its text,
  not \<^verbatim>\<open>None\<close>. A response built from a message parameter that holds the empty
  string as content, or no content at all, has the empty string as the content of its
  message, with or without tool calls; the content of the built message is absent
  only when the content of the message parameter is \<^verbatim>\<open>None\<close>. (The build fails
  with a validation error when the finish reason is not one that the library's
  \<^verbatim>\<open>Choice\<close> admits.)
\<close>

theorem empty_content_is_empty_string:
  "concat (map chunk_content cs) = [] \<Longrightarrow>
   held_content (object_of (consume (self\<lparr>stream := map Yield cs\<rparr>))) = Some '''' \<and>
   built_content (g\<lparr>groq_message_param :=
                      Some (construct_message_param tcs (Some (concat (map chunk_content cs))))\<rparr>) =
     (if choice_finish_reason (finish_reasons g) \<in> set Choice_finish_reason_literals
      then Inr (Some '''') else Inl ValidationError) \<and>
   built_content (g\<lparr>groq_message_param := Some [''role'' \<mapsto> PyStr ''assistant'']\<rparr>) =
     (if choice_finish_reason (finish_reasons g) \<in> set Choice_finish_reason_literals
      then Inr (Some '''') else Inl ValidationError) \<and>
   built_content (g\<lparr>groq_message_param := Some (construct_message_param tcs None)\<rparr>) =
     (if choice_finish_reason (finish_reasons g) \<in> set Choice_finish_reason_literals
      then Inr None else Inl ValidationError)"
  by (simp add: built_content_def built_choice_constructed built_choice_no_content_key
      consume_returned object_of_def after_loop_def held_content_def Let_def)

theorem empty_content_is_empty_string_witness:
  "concat (map chunk_content [text_chunk None '''' None, text_chunk (Some (1::nat)) '''' (Some 2)]) = [] \<and>
   held_content
     (object_of (consume (BaseStream_init
        (map Yield [text_chunk None '''' None, text_chunk (Some (1::nat)) '''' (Some 2)])
        [''role'', ''content''] None :: (nat, nat) BaseStream))) = Some '''' \<and>
   built_content
     \<lparr>groq_message_param = Some (construct_message_param None (Some '''')),
      groq_user_message_param = (None :: nat option), stream_id = None, model = ''llama'',
      finish_reasons = Some [''stop''], input_tokens = None, output_tokens = None\<rparr>
     = Inr (Some '''')"
proof -
  let ?cs = "[text_chunk None '''' None, text_chunk (Some (1::nat)) '''' (Some 2)]"
  let ?b = "BaseStream_init [] [''role'', ''content''] None :: (nat, nat) BaseStream"
  let ?g = "\<lparr>groq_message_param = None,
      groq_user_message_param = (None :: nat option), stream_id = None, model = ''llama'',
      finish_reasons = Some [''stop''], input_tokens = None, output_tokens = None\<rparr>"
  have h: "concat (map chunk_content ?cs) = []"
    by (simp add: text_chunk_def)
  note t = empty_content_is_empty_string [OF h, where self = ?b and g = ?g and tcs = None]
  have b: "?b\<lparr>stream := map Yield ?cs\<rparr> =
      (BaseStream_init (map Yield ?cs) [''role'', ''content''] None :: (nat, nat) BaseStream)"
    by (simp add: BaseStream_init_def)
  have 1: "held_content (object_of (consume (BaseStream_init (map Yield ?cs)
        [''role'', ''content''] None :: (nat, nat) BaseStream))) = Some ''''"
    using t [THEN conjunct1] unfolding b .
  have 2: "built_content
     \<lparr>groq_message_param = Some (construct_message_param None (Some '''')),
      groq_user_message_param = (None :: nat option), stream_id = None, model = ''llama'',
      finish_reasons = Some [''stop''], input_tokens = None, output_tokens = None\<rparr>
     = Inr (Some '''')"
    using t [THEN conjunct2, THEN conjunct1] h
    by (simp add: choice_finish_reason_def Choice_finish_reason_literals_def)
  from h 1 2 show ?thesis by (simp only: simp_thms)
qed

subsection \<open>C7: the finish reason\<close>

text \<open>
  The claim C7 as stated fails. With the finish reasons the list of \<open>content_filter\<close>
  alone, the list is not empty, yet the build exposes no finish reason
  \<open>content_filter\<close>: the library's \<^verbatim>\<open>Choice\<close> does not admit it and the build fails.
\<close>

theorem finish_reason_counterexample:
  "built_finish_reason
     \<lparr>groq_message_param = Some (construct_message_param None (Some ''Hello'')),
      groq_user_message_param = (None :: nat option), stream_id = None, model = ''llama'',
      finish_reasons = Some [''content_filter''], input_tokens = None, output_tokens = None\<rparr>
   \<noteq> Inr ''content_filter''"
  by (simp add: built_finish_reason_def built_choice_def construct_call_response_def
      construct_message_param_def model_validate_def dict_get_def Choice_new_def
      Choice_finish_reason_literals_def choice_finish_reason_def Let_def)

text \<open>
  Claim C7, amended. For a stream whose message parameter was made by
  \<^verbatim>\<open>_construct_message_param\<close>, the finish reason of the built response is the first
  element of the finish reasons when they are a list that is not empty and whose
  first element is one of the literals that the library's \<^verbatim>\<open>Choice\<close> admits (\<open>stop\<close>,
  \<open>length\<close>, \<open>tool_calls\<close>, \<open>function_call\<close>); it is \<open>stop\<close> when there is no list,
  when the list is empty and when its first element is the empty string; for any
  other first element the build fails with a validation error.
\<close>

theorem finish_reason_first_or_stop:
  "built_finish_reason (self\<lparr>groq_message_param := Some (construct_message_param tcs ct)\<rparr>) =
     (case finish_reasons self of
        Some (r # rs) \<Rightarrow>
          (if r = [] then Inr ''stop''
           else if r \<in> set Choice_finish_reason_literals then Inr r
           else Inl ValidationError)
      | _ \<Rightarrow> Inr ''stop'')"
  by (simp add: built_finish_reason_def built_choice_constructed choice_finish_reason_def
      Choice_finish_reason_literals_def split: option.splits list.splits)

subsection \<open>C8: cost and usage\<close>

text \<open>
  Claim C8. The cost is last write wins: consuming one more chunk overwrites the
  cost of the stream object with the cost of the chunk when the chunk carries one and
  leaves it when the chunk carries none, so that after any chunks the cost is that of
  the last chunk that carried one. The usage is last write wins in the same way: the
  input and output tokens are those of the last chunk that carried usage, and after
  chunks with the usages (10, 5) and (10, 8) the output tokens are 8.
\<close>

theorem cost_and_usage_last_write_wins:
  "cost (object_of (consume (self\<lparr>stream := map Yield cs\<rparr>))) =
     last_write_wins (cost self) (map chunk_cost cs) \<and>
   cost (object_of (BaseStream_iter (length cs) (self\<lparr>stream := map Yield cs @ rest\<rparr>))) =
     last_write_wins (cost self) (map chunk_cost cs) \<and>
   cost (object_of (consume (self\<lparr>stream := map Yield (cs @ [c])\<rparr>))) =
     (case chunk_cost c of
        None \<Rightarrow> cost (object_of (consume (self\<lparr>stream := map Yield cs\<rparr>)))
      | Some k \<Rightarrow> Some k) \<and>
   accumulate_usage cs =
     (last_write_wins None (map (\<lambda>c. map_option fst (chunk_usage c)) cs),
      last_write_wins None (map (\<lambda>c. map_option snd (chunk_usage c)) cs)) \<and>
   accumulate_usage (cs @ [c]) =
     (case chunk_usage c of
        None \<Rightarrow> accumulate_usage cs
      | Some (tin, tout) \<Rightarrow> (Some tin, Some tout)) \<and>
   accumulate_usage [usage_chunk 10 5, usage_chunk 10 8] = (Some 10, Some 8)"
proof -
  have c: "cost (object_of (consume (self\<lparr>stream := map Yield xs\<rparr>))) =
     last_write_wins (cost self) (map chunk_cost xs)" for xs
    by (simp add: consume_returned object_of_def after_loop_def Let_def foldl_absorb_cost)
  have p: "cost (object_of (BaseStream_iter (length cs) (self\<lparr>stream := map Yield cs @ rest\<rparr>))) =
     last_write_wins (cost self) (map chunk_cost cs)"
    by (simp add: iter_suspended object_of_def foldl_absorb_cost)
  have s: "cost (object_of (consume (self\<lparr>stream := map Yield (cs @ [c])\<rparr>))) =
     (case chunk_cost c of
        None \<Rightarrow> cost (object_of (consume (self\<lparr>stream := map Yield cs\<rparr>)))
      | Some k \<Rightarrow> Some k)"
    unfolding c by (simp add: last_write_wins_snoc)
  have u: "accumulate_usage cs =
     (last_write_wins None (map (\<lambda>c. map_option fst (chunk_usage c)) cs),
      last_write_wins None (map (\<lambda>c. map_option snd (chunk_usage c)) cs))"
    by (simp add: accumulate_usage_def accumulate_usage_from)
  have us: "accumulate_usage (cs @ [c]) =
     (case chunk_usage c of
        None \<Rightarrow> accumulate_usage cs
      | Some (tin, tout) \<Rightarrow> (Some tin, Some tout))"
    by (simp only: accumulate_usage_def foldl_append foldl_Cons foldl_Nil
        consume_usage_def [of "foldl consume_usage (None, None) cs" c])
  have e: "accumulate_usage [usage_chunk 10 5, usage_chunk 10 8] = (Some 10, Some 8)"
    by (simp add: accumulate_usage_def consume_usage_def usage_chunk_def)
  from c [of cs] p s u us e show ?thesis by (simp only: simp_thms)
qed

subsection \<open>C9: the order of the tool calls\<close>

text \<open>
  Claim C9. The slots stand in the order in which their indices were first seen,
  whatever the numbers are, and the list of finished tool calls follows the slots:
  its k-th entry is made from the slot of the k-th index first seen. For indices
  first seen in the order 2, 0 the list is the call of slot 2 followed by the call of
  slot 0. A list of tool calls handed to \<^verbatim>\<open>_construct_message_param\<close> comes out of
  \<^verbatim>\<open>construct_call_response\<close> as it went in, in the same order (unless the finish
  reason fails the validation of the library).
\<close>

theorem tool_calls_in_first_seen_order:
  "map fst (accumulate_tool_calls cs) = first_seen (map delta_index (all_deltas cs)) \<and>
   build_tool_calls valid_json (accumulate_tool_calls cs) =
     map (\<lambda>i. materialize valid_json (slot_at (accumulate_tool_calls cs) i))
       (first_seen (map delta_index (all_deltas cs))) \<and>
   map fst (accumulate_tool_calls
       [tool_chunk 2 (Some ''lookup'') (Some ''{}''), tool_chunk 0 (Some ''search'') (Some ''{}'')]) =
     [2, 0] \<and>
   build_tool_calls valid_json
     (accumulate_tool_calls
       [tool_chunk 2 (Some ''lookup'') (Some ''{}''), tool_chunk 0 (Some ''search'') (Some ''{}'')]) =
     [materialize valid_json \<lparr>slot_id = None, slot_name = ''lookup'', slot_arguments = ''{}''\<rparr>,
      materialize valid_json \<lparr>slot_id = None, slot_name = ''search'', slot_arguments = ''{}''\<rparr>] \<and>
   built_tool_calls (g\<lparr>groq_message_param := Some (construct_message_param (Some tcs) ct)\<rparr>) =
     (if choice_finish_reason (finish_reasons g) \<in> set Choice_finish_reason_literals
      then Inr (Some tcs) else Inl ValidationError)"
proof -
  let ?slots = "accumulate_tool_calls cs"
  have keys: "map fst ?slots = first_seen (map delta_index (all_deltas cs))"
    by (simp add: accumulate_tool_calls_def accumulate_all_deltas keys_foldl_apply_delta
        first_seen_foldl)
  have "distinct (map fst ?slots)"
    unfolding keys first_seen_foldl by (rule distinct_foldl_see) simp
  then have "map (slot_at ?slots) (map fst ?slots) = map snd ?slots"
    by (rule slots_in_key_order)
  then have "map (materialize valid_json) (map (slot_at ?slots) (map fst ?slots)) =
      map (materialize valid_json) (map snd ?slots)"
    by simp
  then have order: "build_tool_calls valid_json ?slots =
     map (\<lambda>i. materialize valid_json (slot_at ?slots i))
       (first_seen (map delta_index (all_deltas cs)))"
    unfolding keys by (simp add: build_tool_calls_def comp_def case_prod_beta)
  have example: "accumulate_tool_calls
       [tool_chunk 2 (Some ''lookup'') (Some ''{}''), tool_chunk 0 (Some ''search'') (Some ''{}'')] =
     [(2, \<lparr>slot_id = None, slot_name = ''lookup'', slot_arguments = ''{}''\<rparr>),
      (0, \<lparr>slot_id = None, slot_name = ''search'', slot_arguments = ''{}''\<rparr>)]"
    by (simp add: accumulate_tool_calls_def consume_tool_calls_def tool_chunk_def
        append_delta_def empty_slot_def)
  have code: "built_tool_calls (g\<lparr>groq_message_param := Some (construct_message_param (Some tcs) ct)\<rparr>) =
     (if choice_finish_reason (finish_reasons g) \<in> set Choice_finish_reason_literals
      then Inr (Some tcs) else Inl ValidationError)"
    by (simp add: built_tool_calls_def built_choice_constructed)
  show ?thesis
    unfolding example using keys order code by (simp add: build_tool_calls_def)
qed

subsection \<open>C10: the cost of a \<open>GroqStream\<close>\<close>



end
